theory Spec2Isabelle
  imports Main
begin

section \<open>Fibre Channel attach and detach (package fibrechannel)\<close>

text \<open>
  A shallow embedding of the Go package \<^verbatim>\<open>fibrechannel\<close>. Go strings are byte
  sequences and are modelled as \<^typ>\<open>string\<close>. A Go \<^verbatim>\<open>error\<close> result is an
  \<open>error option\<close> (\<open>None\<close> is \<^verbatim>\<open>nil\<close>); a function that returns a value and an
  error returns a pair, as in the source, or a sum where the source never reads the value
  of a failed call.
\<close>

subsection \<open>Functions of the Go standard library used by the package\<close>

text \<open>
  \<^verbatim>\<open>strings.Split(s, sep)\<close> for a separator of one byte (the package only splits
  on \<^verbatim>\<open>"/"\<close>): the pieces of \<open>s\<close> between the separators; one piece more than there
  are separators, so the result is never empty.
\<close>

fun Split :: "string \<Rightarrow> char \<Rightarrow> string list" where
  "Split [] sep = [[]]"
| "Split (x # xs) sep =
     (if x = sep then [] # Split xs sep
      else (case Split xs sep of [] \<Rightarrow> [[x]] | p # ps \<Rightarrow> (x # p) # ps))"

text \<open>\<^verbatim>\<open>strings.HasPrefix(s, prefix)\<close>:
  \<^verbatim>\<open>len(s) >= len(prefix) && s[0:len(prefix)] == prefix\<close>.\<close>

definition HasPrefix :: "string \<Rightarrow> string \<Rightarrow> bool" where
  "HasPrefix s pre = (length pre \<le> length s \<and> take (length pre) s = pre)"

text \<open>\<^verbatim>\<open>strings.Contains(s, substr)\<close>: \<open>substr\<close> starts at some index of \<open>s\<close>.\<close>

fun Contains :: "string \<Rightarrow> string \<Rightarrow> bool" where
  "Contains [] substr = (substr = [])"
| "Contains (x # xs) substr = (HasPrefix (x # xs) substr \<or> Contains xs substr)"

text \<open>\<^verbatim>\<open>strings.Join(elems, "/")\<close>.\<close>

fun join_slash :: "string list \<Rightarrow> string" where
  "join_slash [] = []"
| "join_slash [e] = e"
| "join_slash (e # es) = e @ ''/'' @ join_slash es"

text \<open>
  \<^verbatim>\<open>path.Clean\<close>, on the elements of the path: empty elements (doubled slashes)
  and \<^verbatim>\<open>.\<close> are dropped; \<^verbatim>\<open>..\<close> removes the element before it, is dropped at the
  root of a rooted path and is kept at the start of a relative one. \<open>out\<close> is the output
  so far, last element first.
\<close>

fun Clean_elems :: "bool \<Rightarrow> string list \<Rightarrow> string list \<Rightarrow> string list" where
  "Clean_elems rooted [] out = rev out"
| "Clean_elems rooted (e # es) out =
     (if e = [] \<or> e = ''.'' then Clean_elems rooted es out
      else if e = ''..'' then
        (case out of
           [] \<Rightarrow> if rooted then Clean_elems rooted es [] else Clean_elems rooted es [''..'']
         | t # ts \<Rightarrow> if t = ''..'' then Clean_elems rooted es (''..'' # out)
                     else Clean_elems rooted es ts)
      else Clean_elems rooted es (e # out))"

definition Clean :: "string \<Rightarrow> string" where
  "Clean p =
     (if p = [] then ''.''
      else let rooted = (hd p = CHR ''/'');
               elems = Clean_elems rooted (Split p (CHR ''/'')) []
           in if rooted then ''/'' @ join_slash elems
              else if elems = [] then ''.'' else join_slash elems)"

text \<open>\<^verbatim>\<open>path.Join(elem...)\<close>: the non-empty elements joined by slashes, then cleaned;
  the empty string when every element is empty.\<close>

definition Join :: "string list \<Rightarrow> string" where
  "Join elem =
     (let es = filter (\<lambda>e. e \<noteq> []) elem
      in if es = [] then [] else Clean (join_slash es))"

subsection \<open>Errors\<close>

text \<open>
  One constructor for each place where the package makes an error, carrying what the
  message is formatted from, and one for the errors that the I/O handler returns.
\<close>

datatype error =
    IOError string
  | IllegalPath string           \<comment> \<open>\<^verbatim>\<open>"Illegal path for device " + devicePath\<close>\<close>
  | NoFcDiskFound                \<comment> \<open>\<^verbatim>\<open>"no fc disk found"\<close>\<close>
  | InvalidDeviceName string     \<comment> \<open>\<^verbatim>\<open>"fc detach disk: invalid device name: %s"\<close>\<close>
  | DetachFailed string error    \<comment> \<open>\<^verbatim>\<open>"fc: detachFCDisk failed. device: %v err: %v"\<close>\<close>

subsection \<open>The I/O handler and the connector\<close>

text \<open>
  The interface \<^verbatim>\<open>ioHandler\<close>, over a filesystem state \<open>'s\<close>. \<open>ReadDir\<close>,
  \<open>Lstat\<close> and \<open>EvalSymlinks\<close> read the state; \<open>WriteFile\<close> returns the new
  state as well. Of an \<^verbatim>\<open>os.FileInfo\<close> the package reads only \<^verbatim>\<open>Name()\<close>, so a
  directory listing is the list of its names and \<open>Lstat\<close> only says whether it failed.
  The package never reads the value returned beside an error by the handler.
\<close>

record 's ioHandler =
  ReadDir :: "string \<Rightarrow> 's \<Rightarrow> error + string list"
  Lstat :: "string \<Rightarrow> 's \<Rightarrow> error option"
  EvalSymlinks :: "string \<Rightarrow> 's \<Rightarrow> error + string"
  WriteFile :: "string \<Rightarrow> string \<Rightarrow> nat \<Rightarrow> 's \<Rightarrow> error option \<times> 's"

record 's Connector =
  VolumeName :: string
  TargetWWNs :: "string list"
  Lun :: string
  WWIDs :: "string list"
  Connector_io :: "'s ioHandler option"

text \<open>
  What a call observes and changes: the filesystem state, and a trace of the calls made.
  The trace is only appended to; no function of the package reads it.
\<close>

datatype event =
    CallWriteFile string string nat
  | CallScsiHostRescan
  | CallFindDisk string string
  | CallFindDiskWWIDs string
  | CallDetachFCDisk string

record 's world =
  fs :: 's
  trace :: "event list"

definition log_call :: "event \<Rightarrow> 's world \<Rightarrow> 's world" where
  "log_call e w = w\<lparr>trace := trace w @ [e]\<rparr>"

text \<open>\<^verbatim>\<open>io.WriteFile(name, data, perm)\<close> in a world.\<close>

definition io_WriteFile ::
  "'s ioHandler \<Rightarrow> string \<Rightarrow> string \<Rightarrow> nat \<Rightarrow> 's world \<Rightarrow> error option \<times> 's world" where
  "io_WriteFile io name data perm w =
     (case WriteFile io name data perm (fs w) of
        (err, s') \<Rightarrow> (err, log_call (CallWriteFile name data perm) (w\<lparr>fs := s'\<rparr>)))"

subsection \<open>Path parsing and the multipath parent\<close>

definition findDeviceForPath :: "'s ioHandler \<Rightarrow> string \<Rightarrow> 's \<Rightarrow> string \<times> error option" where
  "findDeviceForPath io path s =
     (case EvalSymlinks io path s of
        Inl err \<Rightarrow> ([], Some err)
      | Inr devicePath \<Rightarrow>
          (case Split devicePath (CHR ''/'') of
             [p0, p1, p2] \<Rightarrow>
               if HasPrefix p1 ''dev'' then (p2, None)
               else ([], Some (IllegalPath devicePath))
           | _ \<Rightarrow> ([], Some (IllegalPath devicePath))))"

text \<open>The loop of \<^verbatim>\<open>FindMultipathDeviceForDevice\<close> over the listing of
  \<^verbatim>\<open>/sys/block/\<close>; falling out of the loop returns \<^verbatim>\<open>"", nil\<close>.\<close>

fun FindMultipath_loop ::
  "'s ioHandler \<Rightarrow> 's \<Rightarrow> string \<Rightarrow> string list \<Rightarrow> string \<times> error option" where
  "FindMultipath_loop io s disk [] = ([], None)"
| "FindMultipath_loop io s disk (name # dirs) =
     (if HasPrefix name ''dm-'' then
        (case Lstat io (''/sys/block/'' @ name @ ''/slaves/'' @ disk) s of
           None \<Rightarrow> (''/dev/'' @ name, None)
         | Some err1 \<Rightarrow> FindMultipath_loop io s disk dirs)
      else FindMultipath_loop io s disk dirs)"

definition FindMultipathDeviceForDevice ::
  "'s ioHandler \<Rightarrow> string \<Rightarrow> 's \<Rightarrow> string \<times> error option" where
  "FindMultipathDeviceForDevice io device s =
     (case findDeviceForPath io device s of
        (disk, Some err) \<Rightarrow> ([], Some err)
      | (disk, None) \<Rightarrow>
          (case ReadDir io ''/sys/block/'' s of
             Inr dirs \<Rightarrow> FindMultipath_loop io s disk dirs
           | Inl err2 \<Rightarrow> ([], Some err2)))"

subsection \<open>The bus rescan\<close>

text \<open>The permission \<^verbatim>\<open>0666\<close> is octal: 438.\<close>

fun scsiHostRescan_loop :: "'s ioHandler \<Rightarrow> string list \<Rightarrow> 's world \<Rightarrow> 's world" where
  "scsiHostRescan_loop io [] w = w"
| "scsiHostRescan_loop io (f # dirs) w =
     (let name = ''/sys/class/scsi_host/'' @ f @ ''/scan'';
          data = ''- - -''
      in scsiHostRescan_loop io dirs (snd (io_WriteFile io name data 438 w)))"

definition scsiHostRescan :: "'s ioHandler \<Rightarrow> 's world \<Rightarrow> 's world" where
  "scsiHostRescan io w =
     (let w0 = log_call CallScsiHostRescan w
      in case ReadDir io ''/sys/class/scsi_host/'' (fs w0) of
           Inr dirs \<Rightarrow> scsiHostRescan_loop io dirs w0
         | Inl err \<Rightarrow> w0)"

subsection \<open>The two lookups\<close>

fun findDisk_loop ::
  "'s ioHandler \<Rightarrow> 's \<Rightarrow> string \<Rightarrow> string list \<Rightarrow> string \<times> string" where
  "findDisk_loop io s FcPath [] = ([], [])"
| "findDisk_loop io s FcPath (name # dirs) =
     (if Contains name FcPath then
        (case EvalSymlinks io (''/dev/disk/by-path/'' @ name) s of
           Inr disk \<Rightarrow>
             (case FindMultipathDeviceForDevice io disk s of
                (dm, None) \<Rightarrow> (disk, dm)
              | (dm, Some err2) \<Rightarrow> findDisk_loop io s FcPath dirs)
         | Inl err1 \<Rightarrow> findDisk_loop io s FcPath dirs)
      else findDisk_loop io s FcPath dirs)"

definition findDisk :: "'s ioHandler \<Rightarrow> string \<Rightarrow> string \<Rightarrow> 's \<Rightarrow> string \<times> string" where
  "findDisk io wwn lun s =
     (let FcPath = ''-fc-0x'' @ wwn @ ''-lun-'' @ lun
      in case ReadDir io ''/dev/disk/by-path/'' s of
           Inr dirs \<Rightarrow> findDisk_loop io s FcPath dirs
         | Inl err \<Rightarrow> ([], []))"

fun findDiskWWIDs_loop ::
  "'s ioHandler \<Rightarrow> 's \<Rightarrow> string \<Rightarrow> string list \<Rightarrow> string \<times> string" where
  "findDiskWWIDs_loop io s FcPath [] = ([], [])"
| "findDiskWWIDs_loop io s FcPath (name # dirs) =
     (if name = FcPath then
        (case EvalSymlinks io (''/dev/disk/by-id/'' @ name) s of
           Inl err \<Rightarrow> ([], [])
         | Inr disk \<Rightarrow>
             (case FindMultipathDeviceForDevice io disk s of
                (dm, Some err1) \<Rightarrow> (disk, dm)
              | (dm, None) \<Rightarrow> findDiskWWIDs_loop io s FcPath dirs))
      else findDiskWWIDs_loop io s FcPath dirs)"

definition findDiskWWIDs :: "'s ioHandler \<Rightarrow> string \<Rightarrow> 's \<Rightarrow> string \<times> string" where
  "findDiskWWIDs io wwid s =
     (let FcPath = ''scsi-'' @ wwid
      in case ReadDir io ''/dev/disk/by-id/'' s of
           Inr dirs \<Rightarrow> findDiskWWIDs_loop io s FcPath dirs
         | Inl err \<Rightarrow> ([], []))"

subsection \<open>The search of Attach\<close>

text \<open>
  One lookup of the inner loop of \<^verbatim>\<open>searchDisk\<close>: the \<^verbatim>\<open>if\<close> that assigns
  \<^verbatim>\<open>disk, dm\<close> from \<^verbatim>\<open>findDisk\<close> or from \<^verbatim>\<open>findDiskWWIDs\<close>.
\<close>

definition searchDisk_lookup ::
  "'s ioHandler \<Rightarrow> 's Connector \<Rightarrow> string \<Rightarrow> 's world \<Rightarrow> (string \<times> string) \<times> 's world" where
  "searchDisk_lookup io c diskID w =
     (if length (TargetWWNs c) \<noteq> 0
      then (findDisk io diskID (Lun c) (fs w), log_call (CallFindDisk diskID (Lun c)) w)
      else (findDiskWWIDs io diskID (fs w), log_call (CallFindDiskWWIDs diskID) w))"

text \<open>
  The inner loop over \<^verbatim>\<open>diskIds\<close>. The pair is the current value of the variables
  \<^verbatim>\<open>disk\<close> and \<^verbatim>\<open>dm\<close>, which every lookup overwrites; the loop breaks when
  \<^verbatim>\<open>dm != ""\<close>.
\<close>

fun searchDisk_pass ::
  "'s ioHandler \<Rightarrow> 's Connector \<Rightarrow> string list \<Rightarrow> string \<times> string \<Rightarrow> 's world
     \<Rightarrow> (string \<times> string) \<times> 's world" where
  "searchDisk_pass io c [] (disk, dm) w = ((disk, dm), w)"
| "searchDisk_pass io c (diskID # diskIds) (disk, dm) w =
     (case searchDisk_lookup io c diskID w of
        ((disk', dm'), w') \<Rightarrow>
          if dm' \<noteq> [] then ((disk', dm'), w')
          else searchDisk_pass io c diskIds (disk', dm') w')"

text \<open>The loop \<^verbatim>\<open>for true\<close>; \<open>None\<close> stands for a loop that never ends.\<close>

partial_function (option) searchDisk_loop ::
  "'s ioHandler \<Rightarrow> 's Connector \<Rightarrow> string list \<Rightarrow> bool \<Rightarrow> string \<times> string \<Rightarrow> 's world
     \<Rightarrow> ((string \<times> string) \<times> 's world) option" where
  "searchDisk_loop io c diskIds rescaned r w =
     (let p = searchDisk_pass io c diskIds r w
      in if rescaned \<or> snd (fst p) \<noteq> [] then Some p
         else searchDisk_loop io c diskIds True (fst p) (scsiHostRescan io (snd p)))"

declare searchDisk_loop.simps [code]

definition searchDisk ::
  "'s ioHandler \<Rightarrow> 's Connector \<Rightarrow> 's world \<Rightarrow> ((string \<times> error option) \<times> 's world) option" where
  "searchDisk io c w =
     (let diskIds = (if length (TargetWWNs c) \<noteq> 0 then TargetWWNs c else WWIDs c)
      in case searchDisk_loop io c diskIds False ([], []) w of
           None \<Rightarrow> None
         | Some ((disk, dm), w') \<Rightarrow>
             if disk = [] \<and> dm = [] then Some (([], Some NoFcDiskFound), w')
             else if dm \<noteq> [] then Some ((dm, None), w')
             else Some ((disk, None), w'))"

text \<open>\<^verbatim>\<open>if io == nil { io = &OSioHandler{} }\<close>: \<open>OSioHandler\<close> is the handler of
  the operating system, used when the caller passes \<^verbatim>\<open>nil\<close>.\<close>

abbreviation (input) io_or_default :: "'s ioHandler \<Rightarrow> 's ioHandler option \<Rightarrow> 's ioHandler" where
  "io_or_default OSioHandler io \<equiv> (case io of None \<Rightarrow> OSioHandler | Some h \<Rightarrow> h)"

definition Attach ::
  "'s ioHandler \<Rightarrow> 's Connector \<Rightarrow> 's ioHandler option \<Rightarrow> 's world
     \<Rightarrow> ((string \<times> error option) \<times> 's world) option" where
  "Attach OSioHandler c io w =
     (let io' = io_or_default OSioHandler io
      in case searchDisk io' c w of
           None \<Rightarrow> None
         | Some ((devicePath, Some err), w') \<Rightarrow> Some (([], Some err), w')
         | Some ((devicePath, None), w') \<Rightarrow> Some ((devicePath, None), w'))"

subsection \<open>Detach\<close>

definition FindSlaveDevicesOnMultipath :: "'s ioHandler \<Rightarrow> string \<Rightarrow> 's \<Rightarrow> string list" where
  "FindSlaveDevicesOnMultipath io dm s =
     (case Split dm (CHR ''/'') of
        [p0, p1, disk] \<Rightarrow>
          if \<not> HasPrefix p1 ''dev'' then []
          else (let slavesPath = Join [''/sys/block/'', disk, ''/slaves/'']
                in case ReadDir io slavesPath s of
                     Inr files \<Rightarrow> map (\<lambda>f. Join [''/dev/'', f]) files
                   | Inl err \<Rightarrow> [])
      | _ \<Rightarrow> [])"

definition removeFromScsiSubsystem :: "'s ioHandler \<Rightarrow> string \<Rightarrow> 's world \<Rightarrow> 's world" where
  "removeFromScsiSubsystem io deviceName w =
     (let fileName = ''/sys/block/'' @ deviceName @ ''/device/delete'';
          data = ''1''
      in snd (io_WriteFile io fileName data 438 w))"

text \<open>\<^verbatim>\<open>arr[len(arr)-1]\<close> is \<open>last arr\<close>: \<open>Split\<close> never returns the empty list
  (lemma \<open>Split_not_Nil\<close> below).\<close>

definition detachFCDisk :: "'s ioHandler \<Rightarrow> string \<Rightarrow> 's world \<Rightarrow> error option \<times> 's world" where
  "detachFCDisk io devicePath w =
     (let w0 = log_call (CallDetachFCDisk devicePath) w
      in if \<not> HasPrefix devicePath ''/dev/'' then (Some (InvalidDeviceName devicePath), w0)
         else (let arr = Split devicePath (CHR ''/'');
                   dev = last arr
               in (None, removeFromScsiSubsystem io dev w0)))"

fun Detach_loop ::
  "'s ioHandler \<Rightarrow> string list \<Rightarrow> error option \<Rightarrow> 's world \<Rightarrow> error option \<times> 's world" where
  "Detach_loop io [] lastErr w = (lastErr, w)"
| "Detach_loop io (device # devices) lastErr w =
     (case detachFCDisk io device w of
        (Some err, w') \<Rightarrow> Detach_loop io devices (Some (DetachFailed device err)) w'
      | (None, w') \<Rightarrow> Detach_loop io devices lastErr w')"

text \<open>The devices that Detach removes, for a resolved path.\<close>

definition Detach_devices :: "'s ioHandler \<Rightarrow> string \<Rightarrow> 's \<Rightarrow> string list" where
  "Detach_devices io dstPath s =
     (if HasPrefix dstPath ''/dev/dm-'' then FindSlaveDevicesOnMultipath io dstPath s
      else [] @ [dstPath])"

definition Detach ::
  "'s ioHandler \<Rightarrow> string \<Rightarrow> 's ioHandler option \<Rightarrow> 's world \<Rightarrow> error option \<times> 's world" where
  "Detach OSioHandler devicePath io w =
     (let io' = io_or_default OSioHandler io
      in case EvalSymlinks io' devicePath (fs w) of
           Inl err \<Rightarrow> (Some err, w)
         | Inr dstPath \<Rightarrow> Detach_loop io' (Detach_devices io' dstPath (fs w)) None w)"

section \<open>Observations on the trace\<close>

text \<open>Calls of \<^verbatim>\<open>scsiHostRescan\<close> and lookups (\<^verbatim>\<open>findDisk\<close> or
  \<^verbatim>\<open>findDiskWWIDs\<close>) recorded in a trace.\<close>

definition rescan_calls :: "event list \<Rightarrow> nat" where
  "rescan_calls tr = length (filter (\<lambda>e. e = CallScsiHostRescan) tr)"

fun is_lookup :: "event \<Rightarrow> bool" where
  "is_lookup (CallFindDisk wwn lun) = True"
| "is_lookup (CallFindDiskWWIDs wwid) = True"
| "is_lookup e = False"

definition lookup_calls :: "event list \<Rightarrow> nat" where
  "lookup_calls tr = length (filter is_lookup tr)"

text \<open>The file writes of a trace (name, data, permission) and the devices handed to
  \<^verbatim>\<open>detachFCDisk\<close>, in order.\<close>

fun write_calls :: "event list \<Rightarrow> (string \<times> string \<times> nat) list" where
  "write_calls [] = []"
| "write_calls (CallWriteFile name data perm # tr) = (name, data, perm) # write_calls tr"
| "write_calls (e # tr) = write_calls tr"

fun detach_calls :: "event list \<Rightarrow> string list" where
  "detach_calls [] = []"
| "detach_calls (CallDetachFCDisk device # tr) = device # detach_calls tr"
| "detach_calls (e # tr) = detach_calls tr"

text \<open>
  Every failure that the loop of \<^verbatim>\<open>Detach\<close> meets, in order, as the error that the
  loop would store in \<^verbatim>\<open>lastErr\<close> at that point. The loop itself keeps only one of
  them; this list keeps them all, to say which one.
\<close>

fun Detach_failures :: "'s ioHandler \<Rightarrow> string list \<Rightarrow> 's world \<Rightarrow> error list" where
  "Detach_failures io [] w = []"
| "Detach_failures io (device # devices) w =
     (case detachFCDisk io device w of
        (Some err, w') \<Rightarrow> DetachFailed device err # Detach_failures io devices w'
      | (None, w') \<Rightarrow> Detach_failures io devices w')"

section \<open>Example filesystems\<close>

text \<open>
  A handler given by tables, over a state that counts the successful writes: the
  directory listings (which may depend on the state), the symlink targets, the paths that
  \<open>Lstat\<close> finds, and the files that cannot be written. A path missing from a table
  gives an \<open>IOError\<close>.
\<close>

definition table_io ::
  "(nat \<Rightarrow> (string \<times> string list) list) \<Rightarrow> (string \<times> string) list \<Rightarrow> string list \<Rightarrow> string list
     \<Rightarrow> nat ioHandler" where
  "table_io dirs links nodes readonly =
     \<lparr>ReadDir = (\<lambda>dirname n. case map_of (dirs n) dirname of
                      Some names \<Rightarrow> Inr names | None \<Rightarrow> Inl (IOError dirname)),
      Lstat = (\<lambda>name n. if name \<in> set nodes then None else Some (IOError name)),
      EvalSymlinks = (\<lambda>path n. case map_of links path of
                      Some target \<Rightarrow> Inr target | None \<Rightarrow> Inl (IOError path)),
      WriteFile = (\<lambda>filename data perm n.
                      if filename \<in> set readonly then (Some (IOError filename), n)
                      else (None, Suc n))\<rparr>"

text \<open>One raw disk \<^verbatim>\<open>sda\<close> behind the first of two target WWNs, no multipath device;
  the scan file of \<^verbatim>\<open>host5\<close> cannot be written.\<close>

definition raw_io :: "nat ioHandler" where
  "raw_io = table_io
     (\<lambda>n. [(''/dev/disk/by-path/'', [''pci-0000:05:00.0-fc-0x10000000c9a02834-lun-1'']),
           (''/sys/block/'', [''sda'']),
           (''/sys/class/scsi_host/'', [''host5'', ''host6''])])
     [(''/dev/disk/by-path/pci-0000:05:00.0-fc-0x10000000c9a02834-lun-1'', ''/dev/sda''),
      (''/dev/sda'', ''/dev/sda'')]
     []
     [''/sys/class/scsi_host/host5/scan'']"

definition two_wwns :: "nat Connector" where
  "two_wwns = \<lparr>VolumeName = ''vol'', TargetWWNs = [''10000000c9a02834'', ''10000000c9a02835''],
     Lun = ''1'', WWIDs = [], Connector_io = None\<rparr>"

text \<open>A disk \<^verbatim>\<open>sdb\<close> under the multipath device \<^verbatim>\<open>dm-0\<close> whose by-path entry
  appears only after a write (a rescan).\<close>

definition hotplug_io :: "nat ioHandler" where
  "hotplug_io = table_io
     (\<lambda>n. [(''/dev/disk/by-path/'',
            if n = 0 then [] else [''pci-0000:05:00.0-fc-0x10000000c9a02834-lun-1'']),
           (''/sys/block/'', [''sdb'', ''dm-0'']),
           (''/sys/class/scsi_host/'', [''host5''])])
     [(''/dev/disk/by-path/pci-0000:05:00.0-fc-0x10000000c9a02834-lun-1'', ''/dev/sdb''),
      (''/dev/sdb'', ''/dev/sdb'')]
     [''/sys/block/dm-0/slaves/sdb'']
     []"

definition one_wwn :: "nat Connector" where
  "one_wwn = \<lparr>VolumeName = ''vol'', TargetWWNs = [''10000000c9a02834''],
     Lun = ''1'', WWIDs = [''3600508b400105e210000900000490000''], Connector_io = None\<rparr>"

text \<open>A disk \<^verbatim>\<open>sdc\<close> known by its WWID, a slave of \<^verbatim>\<open>dm-1\<close> and of
  \<^verbatim>\<open>dm-2\<close> but not of \<^verbatim>\<open>dm-0\<close>; without \<open>sys\<close> the directory
  \<^verbatim>\<open>/sys/block/\<close> cannot be listed.\<close>

definition wwid_io :: "bool \<Rightarrow> nat ioHandler" where
  "wwid_io sys = table_io
     (\<lambda>n. [(''/dev/disk/by-id/'', [''scsi-3600508b400105e210000900000490000''])] @
          (if sys then [(''/sys/block/'', [''sdc'', ''dm-0'', ''dm-1'', ''dm-2''])] else []))
     [(''/dev/disk/by-id/scsi-3600508b400105e210000900000490000'', ''/dev/sdc''),
      (''/dev/sdc'', ''/dev/sdc'')]
     [''/sys/block/dm-1/slaves/sdc'', ''/sys/block/dm-2/slaves/sdc'']
     []"

text \<open>A handler that resolves the bare name \<^verbatim>\<open>sda\<close> to itself, with \<^verbatim>\<open>sda\<close>
  a slave of \<^verbatim>\<open>dm-0\<close>.\<close>

definition bare_io :: "nat ioHandler" where
  "bare_io = table_io
     (\<lambda>n. [(''/sys/block/'', [''dm-0''])])
     [(''sda'', ''sda'')]
     [''/sys/block/dm-0/slaves/sda'']
     []"

text \<open>Entries whose names carry more than the identifier: a by-path entry for LUN 10
  with a partition suffix, and a by-id entry with a partition suffix whose target is not a
  shallow device path.\<close>

definition match_io :: "nat ioHandler" where
  "match_io = table_io
     (\<lambda>n. [(''/dev/disk/by-path/'', [''pci-0000:05:00.0-fc-0x10000000c9a02834-lun-10-part1'']),
           (''/dev/disk/by-id/'', [''scsi-3600508b400105e210000900000490000-part1'']),
           (''/sys/block/'', [''sdd''])])
     [(''/dev/disk/by-path/pci-0000:05:00.0-fc-0x10000000c9a02834-lun-10-part1'', ''/dev/sdd''),
      (''/dev/disk/by-id/scsi-3600508b400105e210000900000490000-part1'', ''/dev/disk/sdd''),
      (''/dev/sdd'', ''/dev/sdd'')]
     []
     []"

text \<open>Two multipath devices: \<^verbatim>\<open>dm-2\<close> with three slaves, where the delete file of
  \<^verbatim>\<open>sdb\<close> cannot be written, and \<^verbatim>\<open>dm-3\<close> whose slave listing holds the names
  \<^verbatim>\<open>..\<close> and \<^verbatim>\<open>.\<close>.\<close>

definition detach_io :: "nat ioHandler" where
  "detach_io = table_io
     (\<lambda>n. [(''/sys/block/dm-2/slaves'', [''sda'', ''sdb'', ''sdc'']),
           (''/sys/block/dm-3/slaves'', [''..'', ''sda'', ''.'', ''sdb''])])
     [(''/dev/mapper/mpatha'', ''/dev/dm-2''),
      (''/dev/mapper/mpathb'', ''/dev/dm-3'')]
     []
     [''/sys/block/sdb/device/delete'']"

definition w0 :: "nat world" where
  "w0 = \<lparr>fs = 0, trace = []\<rparr>"

section \<open>Auxiliary lemmas\<close>

lemma Split_not_Nil: "Split s sep \<noteq> []"
  by (induction s) (auto split: list.splits)

lemma searchDisk_loop_rescaned:
  "searchDisk_loop io c diskIds True r w = Some (searchDisk_pass io c diskIds r w)"
  by (subst searchDisk_loop.simps) simp

lemma searchDisk_loop_first:
  "searchDisk_loop io c diskIds False r w =
     (let p = searchDisk_pass io c diskIds r w
      in if snd (fst p) \<noteq> [] then Some p
         else Some (searchDisk_pass io c diskIds (fst p) (scsiHostRescan io (snd p))))"
  by (subst searchDisk_loop.simps) (simp add: searchDisk_loop_rescaned Let_def)

lemma lookup_rescan_calls:
  "rescan_calls (trace (snd (searchDisk_lookup io c diskID w))) = rescan_calls (trace w)"
  by (simp add: searchDisk_lookup_def log_call_def rescan_calls_def)

lemma lookup_lookup_calls:
  "lookup_calls (trace (snd (searchDisk_lookup io c diskID w))) = Suc (lookup_calls (trace w))"
  by (simp add: searchDisk_lookup_def log_call_def lookup_calls_def)

lemma pass_rescan_calls:
  "rescan_calls (trace (snd (searchDisk_pass io c diskIds r w))) = rescan_calls (trace w)"
proof (induction diskIds arbitrary: r w)
  case Nil
  show ?case by (cases r) simp
next
  case (Cons diskID diskIds)
  show ?case
    using Cons.IH lookup_rescan_calls[of io c diskID w]
    by (cases r) (auto split: prod.splits)
qed

lemma pass_lookup_calls:
  "lookup_calls (trace (snd (searchDisk_pass io c diskIds r w))) \<le> lookup_calls (trace w) + length diskIds"
proof (induction diskIds arbitrary: r w)
  case Nil
  show ?case by (cases r) simp
next
  case (Cons diskID diskIds)
  obtain r' w' where l: "searchDisk_lookup io c diskID w = (r', w')" by (cases "searchDisk_lookup io c diskID w")
  have "lookup_calls (trace w') = Suc (lookup_calls (trace w))"
    using lookup_lookup_calls[of io c diskID w] l by simp
  moreover have "lookup_calls (trace (snd (searchDisk_pass io c diskIds r' w'))) \<le> lookup_calls (trace w') + length diskIds"
    by (rule Cons.IH)
  ultimately show ?case using l
    by (cases r; cases r') auto
qed

lemma write_trace:
  "trace (snd (io_WriteFile io name data perm w)) = trace w @ [CallWriteFile name data perm]"
  by (simp add: io_WriteFile_def log_call_def split: prod.splits)

lemma rescan_loop_rescan_calls:
  "rescan_calls (trace (scsiHostRescan_loop io dirs w)) = rescan_calls (trace w)"
  by (induction io dirs w rule: scsiHostRescan_loop.induct)
     (auto simp: write_trace rescan_calls_def Let_def)

lemma rescan_loop_lookup_calls:
  "lookup_calls (trace (scsiHostRescan_loop io dirs w)) = lookup_calls (trace w)"
  by (induction io dirs w rule: scsiHostRescan_loop.induct)
     (auto simp: write_trace lookup_calls_def Let_def)

lemma scsiHostRescan_rescan_calls:
  "rescan_calls (trace (scsiHostRescan io w)) = Suc (rescan_calls (trace w))"
  by (auto simp: scsiHostRescan_def Let_def rescan_loop_rescan_calls split: sum.splits)
     (auto simp: log_call_def rescan_calls_def)

lemma scsiHostRescan_lookup_calls:
  "lookup_calls (trace (scsiHostRescan io w)) = lookup_calls (trace w)"
  by (auto simp: scsiHostRescan_def Let_def rescan_loop_lookup_calls split: sum.splits)
     (auto simp: log_call_def lookup_calls_def)

lemma lookup_cong:
  "TargetWWNs c1 = TargetWWNs c2 \<Longrightarrow> Lun c1 = Lun c2 \<Longrightarrow>
   searchDisk_lookup io c1 diskID w = searchDisk_lookup io c2 diskID w"
  by (simp add: searchDisk_lookup_def)

lemma pass_cong:
  assumes "TargetWWNs c1 = TargetWWNs c2" "Lun c1 = Lun c2"
  shows "searchDisk_pass io c1 diskIds r w = searchDisk_pass io c2 diskIds r w"
proof (induction diskIds arbitrary: r w)
  case Nil
  show ?case by (cases r) simp
next
  case (Cons diskID diskIds)
  show ?case
    using Cons.IH lookup_cong[OF assms, of io diskID w]
    by (cases r) (auto split: prod.splits)
qed

lemma loop_cong:
  assumes "TargetWWNs c1 = TargetWWNs c2" "Lun c1 = Lun c2"
  shows "searchDisk_loop io c1 diskIds b r w = searchDisk_loop io c2 diskIds b r w"
  by (cases b) (simp_all add: searchDisk_loop_rescaned searchDisk_loop_first Let_def pass_cong[OF assms])

lemma FindMultipath_loop_find:
  "FindMultipath_loop io s d dirs =
     (case find (\<lambda>name. HasPrefix name ''dm-'' \<and>
                  Lstat io (''/sys/block/'' @ name @ ''/slaves/'' @ d) s = None) dirs of
        Some name \<Rightarrow> (''/dev/'' @ name, None)
      | None \<Rightarrow> ([], None))"
  by (induction dirs) (auto split: option.splits)

lemma FindMultipath_error_empty:
  "snd (FindMultipathDeviceForDevice io device s) \<noteq> None \<Longrightarrow>
   fst (FindMultipathDeviceForDevice io device s) = []"
  by (auto simp: FindMultipathDeviceForDevice_def FindMultipath_loop_find
           split: prod.splits option.splits sum.splits)

lemma findDiskWWIDs_loop_closed:
  "findDiskWWIDs_loop io s F dirs =
     (if F \<in> set dirs then
        (case EvalSymlinks io (''/dev/disk/by-id/'' @ F) s of
           Inl err \<Rightarrow> ([], [])
         | Inr disk \<Rightarrow>
             (case snd (FindMultipathDeviceForDevice io disk s) of
                Some err1 \<Rightarrow> (disk, [])
              | None \<Rightarrow> ([], [])))
      else ([], []))"
proof (induction dirs)
  case Nil
  show ?case by simp
next
  case (Cons name dirs)
  show ?case
  proof (cases "name = F")
    case False
    then show ?thesis using Cons.IH by auto
  next
    case True
    show ?thesis
    proof (cases "EvalSymlinks io (''/dev/disk/by-id/'' @ F) s")
      case (Inl err)
      then show ?thesis using True by simp
    next
      case (Inr disk)
      obtain dm e where fm: "FindMultipathDeviceForDevice io disk s = (dm, e)"
        by (cases "FindMultipathDeviceForDevice io disk s")
      show ?thesis
      proof (cases e)
        case None
        then show ?thesis using True Inr fm Cons.IH by simp
      next
        case (Some err1)
        then have "dm = []" using FindMultipath_error_empty[of io disk s] fm by simp
        then show ?thesis using True Inr fm Some by simp
      qed
    qed
  qed
qed

lemma HasPrefix_iff: "HasPrefix s pre \<longleftrightarrow> (\<exists>suf. s = pre @ suf)"
  unfolding HasPrefix_def
  by (metis append_eq_conv_conj append_take_drop_id length_append le_add1)

lemma Contains_iff: "Contains s sub \<longleftrightarrow> (\<exists>pre suf. s = pre @ sub @ suf)"
proof (induction s)
  case Nil
  then show ?case by auto
next
  case (Cons x xs)
  show ?case
  proof
    assume "Contains (x # xs) sub"
    then consider "HasPrefix (x # xs) sub" | "Contains xs sub" by auto
    then show "\<exists>pre suf. x # xs = pre @ sub @ suf"
    proof cases
      case 1
      then obtain suf where "x # xs = sub @ suf" by (auto simp: HasPrefix_iff)
      then have "x # xs = [] @ sub @ suf" by simp
      then show ?thesis by blast
    next
      case 2
      then obtain pre suf where "xs = pre @ sub @ suf" using Cons.IH by auto
      then have "x # xs = (x # pre) @ sub @ suf" by simp
      then show ?thesis by blast
    qed
  next
    assume "\<exists>pre suf. x # xs = pre @ sub @ suf"
    then obtain pre suf where eq: "x # xs = pre @ sub @ suf" by auto
    show "Contains (x # xs) sub"
    proof (cases pre)
      case Nil
      with eq have "HasPrefix (x # xs) sub" by (auto simp: HasPrefix_iff)
      then show ?thesis by simp
    next
      case (Cons y ys)
      with eq have "xs = ys @ sub @ suf" by simp
      then have "Contains xs sub" using Cons.IH by blast
      then show ?thesis by simp
    qed
  qed
qed

lemma findDisk_loop_filter:
  "findDisk_loop io s F dirs = findDisk_loop io s F (filter (\<lambda>name. Contains name F) dirs)"
  by (induction dirs) (auto split: sum.splits prod.splits option.splits)

lemma findDiskWWIDs_loop_filter:
  "findDiskWWIDs_loop io s F dirs = findDiskWWIDs_loop io s F (filter (\<lambda>name. name = F) dirs)"
  by (induction dirs) (auto split: sum.splits prod.splits option.splits)

lemma write_calls_append: "write_calls (xs @ ys) = write_calls xs @ write_calls ys"
  by (induction xs rule: write_calls.induct) auto

lemma detach_calls_append: "detach_calls (xs @ ys) = detach_calls xs @ detach_calls ys"
  by (induction xs rule: detach_calls.induct) auto

lemma io_WriteFile_trace:
  "trace (snd (io_WriteFile io name data perm w)) = trace w @ [CallWriteFile name data perm]"
  by (simp add: io_WriteFile_def log_call_def split: prod.splits)

lemma io_WriteFile_fs:
  "fs (snd (io_WriteFile io name data perm w)) = snd (WriteFile io name data perm (fs w))"
  by (simp add: io_WriteFile_def log_call_def split: prod.splits)

lemma scsiHostRescan_loop_writes:
  "write_calls (trace (scsiHostRescan_loop io dirs w)) =
     write_calls (trace w) @ map (\<lambda>f. (''/sys/class/scsi_host/'' @ f @ ''/scan'', ''- - -'', 438)) dirs"
  by (induction dirs arbitrary: w) (simp_all add: Let_def io_WriteFile_trace write_calls_append)

lemma scsiHostRescan_loop_fs:
  "fs (scsiHostRescan_loop io dirs w) =
     foldl (\<lambda>s f. snd (WriteFile io (''/sys/class/scsi_host/'' @ f @ ''/scan'') ''- - -'' 438 s)) (fs w) dirs"
  by (induction dirs arbitrary: w) (simp_all add: Let_def io_WriteFile_fs)

lemma detachFCDisk_error:
  "fst (detachFCDisk io d w) = (if HasPrefix d ''/dev/'' then None else Some (InvalidDeviceName d))"
  by (simp add: detachFCDisk_def Let_def)

lemma detachFCDisk_detach_calls:
  "detach_calls (trace (snd (detachFCDisk io d w))) = detach_calls (trace w) @ [d]"
  by (simp add: detachFCDisk_def Let_def log_call_def removeFromScsiSubsystem_def
        io_WriteFile_trace detach_calls_append)

lemma Detach_loop_result:
  "fst (Detach_loop io devices lastErr w) =
     (if Detach_failures io devices w = [] then lastErr
      else Some (last (Detach_failures io devices w)))"
proof (induction devices arbitrary: lastErr w)
  case Nil
  show ?case by simp
next
  case (Cons d devices)
  obtain e w' where r: "detachFCDisk io d w = (e, w')" by (cases "detachFCDisk io d w")
  show ?case using r Cons.IH by (cases e) auto
qed

lemma Detach_loop_detach_calls:
  "detach_calls (trace (snd (Detach_loop io devices lastErr w))) = detach_calls (trace w) @ devices"
proof (induction devices arbitrary: lastErr w)
  case Nil
  show ?case by simp
next
  case (Cons d devices)
  obtain e w' where r: "detachFCDisk io d w = (e, w')" by (cases "detachFCDisk io d w")
  then have "detach_calls (trace w') = detach_calls (trace w) @ [d]"
    using detachFCDisk_detach_calls[of io d w] by simp
  then show ?case using r Cons.IH by (cases e) auto
qed

lemma Detach_failures_empty_iff:
  "Detach_failures io devices w = [] \<longleftrightarrow> (\<forall>d \<in> set devices. HasPrefix d ''/dev/'')"
proof (induction devices arbitrary: w)
  case Nil
  show ?case by simp
next
  case (Cons d devices)
  obtain e w' where r: "detachFCDisk io d w = (e, w')" by (cases "detachFCDisk io d w")
  then have "e = (if HasPrefix d ''/dev/'' then None else Some (InvalidDeviceName d))"
    using detachFCDisk_error[of io d w] by simp
  then show ?case using r Cons.IH by (cases e) (auto split: if_splits)
qed

lemma detachFCDisk_write_calls:
  "write_calls (trace (snd (detachFCDisk io d w))) =
     write_calls (trace w) @
       (if HasPrefix d ''/dev/''
        then [(''/sys/block/'' @ last (Split d (CHR ''/'')) @ ''/device/delete'', ''1'', 438)]
        else [])"
  by (simp add: detachFCDisk_def Let_def log_call_def removeFromScsiSubsystem_def
        io_WriteFile_trace write_calls_append)

lemma detachFCDisk_fs:
  "fs (snd (detachFCDisk io d w)) =
     (if HasPrefix d ''/dev/''
      then snd (WriteFile io (''/sys/block/'' @ last (Split d (CHR ''/'')) @ ''/device/delete'')
                  ''1'' 438 (fs w))
      else fs w)"
  by (simp add: detachFCDisk_def Let_def log_call_def removeFromScsiSubsystem_def io_WriteFile_fs)

lemma Detach_loop_write_calls:
  "write_calls (trace (snd (Detach_loop io devices lastErr w))) =
     write_calls (trace w) @
       map (\<lambda>d. (''/sys/block/'' @ last (Split d (CHR ''/'')) @ ''/device/delete'', ''1'', 438))
         (filter (\<lambda>d. HasPrefix d ''/dev/'') devices)"
proof (induction devices arbitrary: lastErr w)
  case Nil
  show ?case by simp
next
  case (Cons d devices)
  obtain e w' where r: "detachFCDisk io d w = (e, w')" by (cases "detachFCDisk io d w")
  then have "write_calls (trace w') =
     write_calls (trace w) @
       (if HasPrefix d ''/dev/''
        then [(''/sys/block/'' @ last (Split d (CHR ''/'')) @ ''/device/delete'', ''1'', 438)]
        else [])"
    using detachFCDisk_write_calls[of io d w] by simp
  then show ?case using r Cons.IH by (cases e) auto
qed

lemma Detach_loop_fs:
  "fs (snd (Detach_loop io devices lastErr w)) =
     foldl (\<lambda>s d. snd (WriteFile io
               (''/sys/block/'' @ last (Split d (CHR ''/'')) @ ''/device/delete'') ''1'' 438 s))
       (fs w) (filter (\<lambda>d. HasPrefix d ''/dev/'') devices)"
proof (induction devices arbitrary: lastErr w)
  case Nil
  show ?case by simp
next
  case (Cons d devices)
  obtain e w' where r: "detachFCDisk io d w = (e, w')" by (cases "detachFCDisk io d w")
  then have "fs w' =
     (if HasPrefix d ''/dev/''
      then snd (WriteFile io (''/sys/block/'' @ last (Split d (CHR ''/'')) @ ''/device/delete'')
                  ''1'' 438 (fs w))
      else fs w)"
    using detachFCDisk_fs[of io d w] by simp
  then show ?case using r Cons.IH by (cases e) auto
qed

lemma Detach_loop_last_invalid:
  "fst (Detach_loop io devices lastErr w) =
     (if filter (\<lambda>d. \<not> HasPrefix d ''/dev/'') devices = [] then lastErr
      else Some (DetachFailed (last (filter (\<lambda>d. \<not> HasPrefix d ''/dev/'') devices))
                   (InvalidDeviceName (last (filter (\<lambda>d. \<not> HasPrefix d ''/dev/'') devices)))))"
proof (induction devices arbitrary: lastErr w)
  case Nil
  show ?case by simp
next
  case (Cons d devices)
  obtain e w' where r: "detachFCDisk io d w = (e, w')" by (cases "detachFCDisk io d w")
  then have e: "e = (if HasPrefix d ''/dev/'' then None else Some (InvalidDeviceName d))"
    using detachFCDisk_error[of io d w] by simp
  show ?case
  proof (cases "HasPrefix d ''/dev/''")
    case True
    then show ?thesis using r e Cons.IH by simp
  next
    case False
    then show ?thesis using r e Cons.IH by simp
  qed
qed
section \<open>The claims\<close>

subsection \<open>C1: what the search of Attach returns\<close>

text \<open>
  Claim C1 says that \<^verbatim>\<open>searchDisk\<close> returns the multipath device if one was found,
  otherwise the most recently discovered raw device, and fails with "no fc disk found" only
  if no device at all was ever found in either pass. The code keeps the result of the last
  lookup only: a lookup that finds nothing overwrites \<^verbatim>\<open>disk\<close> with the empty
  string. With two target WWNs of which the first leads to the raw disk \<^verbatim>\<open>/dev/sda\<close>
  (before and after the rescan) and the second has no by-path entry, the search fails,
  although the same filesystem searched for the first WWN alone gives \<^verbatim>\<open>/dev/sda\<close>.
\<close>

theorem searchDisk_forgets_earlier_raw_device:
  "findDisk raw_io ''10000000c9a02834'' ''1'' 0 = (''/dev/sda'', []) \<and>
   findDisk raw_io ''10000000c9a02834'' ''1'' 1 = (''/dev/sda'', []) \<and>
   findDisk raw_io ''10000000c9a02835'' ''1'' 1 = ([], []) \<and>
   map_option fst (searchDisk raw_io two_wwns w0) = Some ([], Some NoFcDiskFound) \<and>
   map_option fst (searchDisk raw_io (two_wwns\<lparr>TargetWWNs := [''10000000c9a02834'']\<rparr>) w0) =
     Some (''/dev/sda'', None)"
  by code_simp

subsection \<open>C2: the loop of the search ends after at most two passes and one rescan\<close>

text \<open>
  Claim C2: \<^verbatim>\<open>searchDisk\<close> always returns. Its loop makes one pass over the
  identifiers; if that pass ends with a multipath device the loop ends there, with no
  rescan; otherwise \<^verbatim>\<open>scsiHostRescan\<close> is called once, a second pass runs from the
  state the rescan left, and the loop ends whatever the second pass finds. So the trace
  gains no rescan in the first case and exactly one in the second, and at most twice as
  many lookups as there are identifiers.
\<close>

theorem searchDisk_two_passes_one_rescan:
  "(\<exists>res. searchDisk io c w = Some res) \<and>
   (let p1 = searchDisk_pass io c diskIds r w;
        p2 = searchDisk_pass io c diskIds (fst p1) (scsiHostRescan io (snd p1))
    in searchDisk_loop io c diskIds False r w = Some (if snd (fst p1) \<noteq> [] then p1 else p2) \<and>
       rescan_calls (trace (snd p1)) = rescan_calls (trace w) \<and>
       rescan_calls (trace (snd p2)) = rescan_calls (trace w) + 1 \<and>
       lookup_calls (trace (snd p1)) \<le> lookup_calls (trace w) + length diskIds \<and>
       lookup_calls (trace (snd p2)) \<le> lookup_calls (trace w) + 2 * length diskIds)"
proof -
  have ret: "\<exists>res. searchDisk io c w = Some res"
    by (auto simp: searchDisk_def searchDisk_loop_first Let_def split: prod.splits)
  define p1 where "p1 = searchDisk_pass io c diskIds r w"
  define p2 where "p2 = searchDisk_pass io c diskIds (fst p1) (scsiHostRescan io (snd p1))"
  have loop: "searchDisk_loop io c diskIds False r w = Some (if snd (fst p1) \<noteq> [] then p1 else p2)"
    by (simp add: searchDisk_loop_first p1_def p2_def Let_def)
  have r1: "rescan_calls (trace (snd p1)) = rescan_calls (trace w)"
    by (simp add: p1_def pass_rescan_calls)
  have r2: "rescan_calls (trace (snd p2)) = rescan_calls (trace w) + 1"
    by (simp add: p2_def pass_rescan_calls scsiHostRescan_rescan_calls r1)
  have l1: "lookup_calls (trace (snd p1)) \<le> lookup_calls (trace w) + length diskIds"
    by (simp add: p1_def pass_lookup_calls)
  have "lookup_calls (trace (snd p2)) \<le> lookup_calls (trace (scsiHostRescan io (snd p1))) + length diskIds"
    unfolding p2_def by (rule pass_lookup_calls)
  with l1 have l2: "lookup_calls (trace (snd p2)) \<le> lookup_calls (trace w) + 2 * length diskIds"
    by (simp add: scsiHostRescan_lookup_calls)
  from loop r1 r2 l1 l2 have "let p1' = p1; p2' = p2
    in searchDisk_loop io c diskIds False r w = Some (if snd (fst p1') \<noteq> [] then p1' else p2') \<and>
       rescan_calls (trace (snd p1')) = rescan_calls (trace w) \<and>
       rescan_calls (trace (snd p2')) = rescan_calls (trace w) + 1 \<and>
       lookup_calls (trace (snd p1')) \<le> lookup_calls (trace w) + length diskIds \<and>
       lookup_calls (trace (snd p2')) \<le> lookup_calls (trace w) + 2 * length diskIds"
    by (simp add: Let_def)
  with ret show ?thesis unfolding p1_def p2_def by (simp add: Let_def)
qed

theorem searchDisk_two_passes_one_rescan_witness:
  "(\<exists>res. searchDisk hotplug_io one_wwn w0 = Some res) \<and>
   snd (fst (searchDisk_pass hotplug_io one_wwn [''10000000c9a02834''] ([], []) w0)) = [] \<and>
   searchDisk_loop hotplug_io one_wwn [''10000000c9a02834''] False ([], []) w0 =
     Some ((''/dev/sdb'', ''/dev/dm-0''),
           \<lparr>fs = 1,
              trace = [CallFindDisk ''10000000c9a02834'' ''1'', CallScsiHostRescan,
                       CallWriteFile ''/sys/class/scsi_host/host5/scan'' ''- - -'' 438,
                       CallFindDisk ''10000000c9a02834'' ''1'']\<rparr>) \<and>
   rescan_calls (trace (snd (searchDisk_pass hotplug_io one_wwn [''10000000c9a02834'']
      (fst (searchDisk_pass hotplug_io one_wwn [''10000000c9a02834''] ([], []) w0))
      (scsiHostRescan hotplug_io
        (snd (searchDisk_pass hotplug_io one_wwn [''10000000c9a02834''] ([], []) w0)))))) = 1 \<and>
   snd (fst (searchDisk_pass hotplug_io one_wwn [''10000000c9a02834''] ([], [])
               (w0\<lparr>fs := 1\<rparr>))) = ''/dev/dm-0'' \<and>
   searchDisk_loop hotplug_io one_wwn [''10000000c9a02834''] False ([], []) (w0\<lparr>fs := 1\<rparr>) =
     Some ((''/dev/sdb'', ''/dev/dm-0''),
           \<lparr>fs = 1, trace = [CallFindDisk ''10000000c9a02834'' ''1'']\<rparr>)"
proof -
  have p1: "searchDisk_pass hotplug_io one_wwn [''10000000c9a02834''] ([], []) w0 =
      (([], []), \<lparr>fs = 0, trace = [CallFindDisk ''10000000c9a02834'' ''1'']\<rparr>)"
    by code_simp
  have p2: "searchDisk_pass hotplug_io one_wwn [''10000000c9a02834''] ([], [])
       (scsiHostRescan hotplug_io \<lparr>fs = 0, trace = [CallFindDisk ''10000000c9a02834'' ''1'']\<rparr>) =
      ((''/dev/sdb'', ''/dev/dm-0''),
       \<lparr>fs = 1,
          trace = [CallFindDisk ''10000000c9a02834'' ''1'', CallScsiHostRescan,
                   CallWriteFile ''/sys/class/scsi_host/host5/scan'' ''- - -'' 438,
                   CallFindDisk ''10000000c9a02834'' ''1'']\<rparr>)"
    by code_simp
  have p3: "searchDisk_pass hotplug_io one_wwn [''10000000c9a02834''] ([], [])
       (w0\<lparr>fs := Suc 0\<rparr>) =
      ((''/dev/sdb'', ''/dev/dm-0''),
       \<lparr>fs = 1, trace = [CallFindDisk ''10000000c9a02834'' ''1'']\<rparr>)"
    by code_simp
  have t0: "rescan_calls (trace w0) = 0"
    by code_simp
  from searchDisk_two_passes_one_rescan
         [where io = hotplug_io and c = one_wwn and w = w0
            and diskIds = "[''10000000c9a02834'']" and r = "([], [])"]
       searchDisk_two_passes_one_rescan
         [where io = hotplug_io and c = one_wwn and w = "w0\<lparr>fs := 1\<rparr>"
            and diskIds = "[''10000000c9a02834'']" and r = "([], [])"]
  show ?thesis
    by (simp add: p1 p2 p3 t0 Let_def del: searchDisk_pass.simps)
qed

subsection \<open>C3: Detach tries every device and returns the last failure\<close>

text \<open>
  Claim C3 says that \<^verbatim>\<open>Detach\<close> attempts the removal of every device of its list
  and, when the removal of some device fails, returns the last such failure; its example
  is a multipath device with the slaves \<^verbatim>\<open>sda\<close>, \<^verbatim>\<open>sdb\<close>, \<^verbatim>\<open>sdc\<close> where the
  removal of \<^verbatim>\<open>sdb\<close> fails. The removal of a device is the write of \<^verbatim>\<open>1\<close> to
  \<^verbatim>\<open>/sys/block/<leaf>/device/delete\<close>, and \<^verbatim>\<open>removeFromScsiSubsystem\<close> drops the
  result of that write. On that example, with the write for \<^verbatim>\<open>sdb\<close> failing, all
  three writes are made and \<^verbatim>\<open>Detach\<close> returns no error.
\<close>

theorem Detach_write_failure_not_returned_counterexample:
  "EvalSymlinks detach_io ''/dev/mapper/mpatha'' (fs w0) = Inr ''/dev/dm-2'' \<and>
   Detach_devices detach_io ''/dev/dm-2'' (fs w0) = [''/dev/sda'', ''/dev/sdb'', ''/dev/sdc''] \<and>
   io_WriteFile detach_io ''/sys/block/sda/device/delete'' ''1'' 438
       (log_call (CallDetachFCDisk ''/dev/sda'') w0) =
     (None, \<lparr>fs = 1, trace = [CallDetachFCDisk ''/dev/sda'',
                              CallWriteFile ''/sys/block/sda/device/delete'' ''1'' 438]\<rparr>) \<and>
   fst (WriteFile detach_io ''/sys/block/sdb/device/delete'' ''1'' 438 1) =
     Some (IOError ''/sys/block/sdb/device/delete'') \<and>
   snd (WriteFile detach_io ''/sys/block/sdc/device/delete'' ''1'' 438 1) = 2 \<and>
   Detach detach_io ''/dev/mapper/mpatha'' (Some detach_io) w0 =
     (None,
      \<lparr>fs = 2,
         trace = [CallDetachFCDisk ''/dev/sda'',
                  CallWriteFile ''/sys/block/sda/device/delete'' ''1'' 438,
                  CallDetachFCDisk ''/dev/sdb'',
                  CallWriteFile ''/sys/block/sdb/device/delete'' ''1'' 438,
                  CallDetachFCDisk ''/dev/sdc'',
                  CallWriteFile ''/sys/block/sdc/device/delete'' ''1'' 438]\<rparr>)"
  by code_simp

text \<open>
  Claim C3, amended: once the path is resolved, \<^verbatim>\<open>Detach\<close> calls
  \<^verbatim>\<open>detachFCDisk\<close> on every device of its list, in order, whether or not an earlier
  device failed. For every device that begins with \<^verbatim>\<open>/dev/\<close> it writes \<^verbatim>\<open>1\<close> to
  \<^verbatim>\<open>/sys/block/<leaf>/device/delete\<close>, each write on the state that the one before
  left, and the result of the write is dropped. A device fails only when it does not begin
  with \<^verbatim>\<open>/dev/\<close>, and then nothing is written for it. \<^verbatim>\<open>Detach\<close> returns the
  error made from the last device that fails in this way, and no error when there is
  none.
\<close>

theorem Detach_removes_every_device_returns_last_invalid_name:
  "EvalSymlinks (io_or_default OSioHandler io) devicePath (fs w) = Inr dstPath \<longrightarrow>
   (let h = io_or_default OSioHandler io;
        devices = Detach_devices h dstPath (fs w);
        valid = filter (\<lambda>d. HasPrefix d ''/dev/'') devices;
        invalid = filter (\<lambda>d. \<not> HasPrefix d ''/dev/'') devices;
        res = Detach OSioHandler devicePath io w
    in detach_calls (trace (snd res)) = detach_calls (trace w) @ devices \<and>
       write_calls (trace (snd res)) =
         write_calls (trace w) @
           map (\<lambda>d. (''/sys/block/'' @ last (Split d (CHR ''/'')) @ ''/device/delete'', ''1'', 438))
             valid \<and>
       fs (snd res) =
         foldl (\<lambda>s d. snd (WriteFile h
                   (''/sys/block/'' @ last (Split d (CHR ''/'')) @ ''/device/delete'') ''1'' 438 s))
           (fs w) valid \<and>
       fst res =
         (if invalid = [] then None
          else Some (DetachFailed (last invalid) (InvalidDeviceName (last invalid)))))"
  by (simp add: Detach_def Let_def Detach_loop_detach_calls Detach_loop_write_calls
        Detach_loop_fs Detach_loop_last_invalid)

theorem Detach_removes_every_device_returns_last_invalid_name_witness:
  "EvalSymlinks detach_io ''/dev/mapper/mpathb'' (fs w0) = Inr ''/dev/dm-3'' \<and>
   Detach_devices detach_io ''/dev/dm-3'' (fs w0) = [''/'', ''/dev/sda'', ''/dev'', ''/dev/sdb''] \<and>
   detach_calls (trace (snd (Detach detach_io ''/dev/mapper/mpathb'' (Some detach_io) w0))) =
     [''/'', ''/dev/sda'', ''/dev'', ''/dev/sdb''] \<and>
   write_calls (trace (snd (Detach detach_io ''/dev/mapper/mpathb'' (Some detach_io) w0))) =
     [(''/sys/block/sda/device/delete'', ''1'', 438),
      (''/sys/block/sdb/device/delete'', ''1'', 438)] \<and>
   fst (WriteFile detach_io ''/sys/block/sdb/device/delete'' ''1'' 438 1) =
     Some (IOError ''/sys/block/sdb/device/delete'') \<and>
   fs (snd (Detach detach_io ''/dev/mapper/mpathb'' (Some detach_io) w0)) = 1 \<and>
   fst (Detach detach_io ''/dev/mapper/mpathb'' (Some detach_io) w0) =
     Some (DetachFailed ''/dev'' (InvalidDeviceName ''/dev''))"
proof -
  have e: "EvalSymlinks detach_io ''/dev/mapper/mpathb'' (fs w0) = Inr ''/dev/dm-3''"
    by code_simp
  have d: "Detach_devices detach_io ''/dev/dm-3'' (fs w0) =
      [''/'', ''/dev/sda'', ''/dev'', ''/dev/sdb'']"
    by code_simp
  have h: "\<not> HasPrefix ''/'' ''/dev/''" "HasPrefix ''/dev/sda'' ''/dev/''"
      "\<not> HasPrefix ''/dev'' ''/dev/''" "HasPrefix ''/dev/sdb'' ''/dev/''"
    by code_simp+
  have s: "Split ''/dev/sda'' (CHR ''/'') = [[], ''dev'', ''sda'']"
      "Split ''/dev/sdb'' (CHR ''/'') = [[], ''dev'', ''sdb'']"
    by code_simp+
  have wr: "WriteFile detach_io ''/sys/block/sda/device/delete'' ''1'' 438 (fs w0) = (None, Suc 0)"
      "WriteFile detach_io ''/sys/block/sdb/device/delete'' ''1'' 438 (Suc 0) =
         (Some (IOError ''/sys/block/sdb/device/delete''), Suc 0)"
    by code_simp+
  have t: "detach_calls (trace w0) = []" "write_calls (trace w0) = []"
    by code_simp+
  from Detach_removes_every_device_returns_last_invalid_name
         [where OSioHandler = detach_io and io = "Some detach_io"
            and devicePath = "''/dev/mapper/mpathb''" and w = w0 and dstPath = "''/dev/dm-3''"]
  show ?thesis
    by (simp add: e d h s wr t Let_def del: Split.simps)
qed

subsection \<open>C4: the lookup by WWID returns the disk only when the multipath lookup fails\<close>

text \<open>
  Claim C4: in \<^verbatim>\<open>findDiskWWIDs\<close>, when the listing of \<^verbatim>\<open>/dev/disk/by-id/\<close> has the
  entry \<^verbatim>\<open>scsi-<wwid>\<close> and its symlink resolves to a disk, the disk is returned (with an
  empty multipath device) exactly when \<^verbatim>\<open>FindMultipathDeviceForDevice\<close> returns an
  error; when that call succeeds the result is dropped and the lookup returns two empty
  strings. Every other case returns two empty strings as well.
\<close>

theorem findDiskWWIDs_returns_pair_only_on_lookup_error:
  "findDiskWWIDs io wwid s =
     (case ReadDir io ''/dev/disk/by-id/'' s of
        Inl err \<Rightarrow> ([], [])
      | Inr dirs \<Rightarrow>
          if ''scsi-'' @ wwid \<in> set dirs then
            (case EvalSymlinks io (''/dev/disk/by-id/'' @ ''scsi-'' @ wwid) s of
               Inl err \<Rightarrow> ([], [])
             | Inr disk \<Rightarrow>
                 (case snd (FindMultipathDeviceForDevice io disk s) of
                    Some err1 \<Rightarrow> (disk, [])
                  | None \<Rightarrow> ([], [])))
          else ([], []))"
  by (simp add: findDiskWWIDs_def findDiskWWIDs_loop_closed Let_def split: sum.splits)

theorem findDiskWWIDs_returns_pair_only_on_lookup_error_witness:
  "FindMultipathDeviceForDevice (wwid_io True) ''/dev/sdc'' 0 = (''/dev/dm-1'', None) \<and>
   findDiskWWIDs (wwid_io True) ''3600508b400105e210000900000490000'' 0 = ([], []) \<and>
   FindMultipathDeviceForDevice (wwid_io False) ''/dev/sdc'' 0 =
     ([], Some (IOError ''/sys/block/'')) \<and>
   findDiskWWIDs (wwid_io False) ''3600508b400105e210000900000490000'' 0 = (''/dev/sdc'', [])"
proof -
  have r: "ReadDir (wwid_io sys) ''/dev/disk/by-id/'' 0 =
      Inr [''scsi-3600508b400105e210000900000490000'']" for sys
    by (cases sys) (simp_all add: wwid_io_def table_io_def)
  have e: "EvalSymlinks (wwid_io sys)
      ''/dev/disk/by-id/scsi-3600508b400105e210000900000490000'' 0 = Inr ''/dev/sdc''" for sys
    by (simp add: wwid_io_def table_io_def)
  have m1: "FindMultipathDeviceForDevice (wwid_io True) ''/dev/sdc'' 0 = (''/dev/dm-1'', None)"
    by code_simp
  have m2: "FindMultipathDeviceForDevice (wwid_io False) ''/dev/sdc'' 0 =
      ([], Some (IOError ''/sys/block/''))"
    by code_simp
  from findDiskWWIDs_returns_pair_only_on_lookup_error
         [of "wwid_io True" "''3600508b400105e210000900000490000''" 0]
       findDiskWWIDs_returns_pair_only_on_lookup_error
         [of "wwid_io False" "''3600508b400105e210000900000490000''" 0]
  show ?thesis
    by (simp add: r e m1 m2)
qed

subsection \<open>C5: the device name of a resolved path\<close>

text \<open>
  Claim C5: for the path that the symlink resolves to, \<^verbatim>\<open>findDeviceForPath\<close> returns
  the third segment when the path splits on \<^verbatim>\<open>/\<close> into exactly three segments and the
  second has the prefix \<^verbatim>\<open>dev\<close>; for any other number of segments, or a second segment
  without that prefix, it fails with the error "Illegal path for device".
\<close>

theorem findDeviceForPath_parse:
  assumes "EvalSymlinks io path s = Inr target"
  shows "findDeviceForPath io path s =
     (if length (Split target (CHR ''/'')) = 3 \<and> HasPrefix (Split target (CHR ''/'') ! 1) ''dev''
      then (Split target (CHR ''/'') ! 2, None)
      else ([], Some (IllegalPath target)))"
  using assms unfolding findDeviceForPath_def
  by (auto split: list.splits)

theorem findDeviceForPath_parse_witness:
  "EvalSymlinks match_io ''/dev/sdd'' 0 = Inr ''/dev/sdd'' \<and>
   findDeviceForPath match_io ''/dev/sdd'' 0 = (''sdd'', None) \<and>
   EvalSymlinks match_io ''/dev/disk/by-id/scsi-3600508b400105e210000900000490000-part1'' 0 =
     Inr ''/dev/disk/sdd'' \<and>
   findDeviceForPath match_io ''/dev/disk/by-id/scsi-3600508b400105e210000900000490000-part1'' 0 =
     ([], Some (IllegalPath ''/dev/disk/sdd''))"
proof -
  have e1: "EvalSymlinks match_io ''/dev/sdd'' 0 = Inr ''/dev/sdd''"
    by code_simp
  have e2: "EvalSymlinks match_io
      ''/dev/disk/by-id/scsi-3600508b400105e210000900000490000-part1'' 0 = Inr ''/dev/disk/sdd''"
    by code_simp
  have s1: "Split ''/dev/sdd'' (CHR ''/'') = [[], ''dev'', ''sdd'']"
    by code_simp
  have s2: "Split ''/dev/disk/sdd'' (CHR ''/'') = [[], ''dev'', ''disk'', ''sdd'']"
    by code_simp
  have h: "HasPrefix ''dev'' ''dev''"
    by code_simp
  from findDeviceForPath_parse [OF e1] findDeviceForPath_parse [OF e2]
  show ?thesis
    by (simp add: e1 e2 s1 s2 h)
qed

subsection \<open>C6: the multipath parent of a device\<close>

text \<open>
  Claim C6 is stated for a device name \<open>d\<close> handed to
  \<^verbatim>\<open>FindMultipathDeviceForDevice\<close>. The function takes a path: it first resolves
  and parses it with \<^verbatim>\<open>findDeviceForPath\<close> and returns the error of that step. Given
  the bare name \<^verbatim>\<open>sda\<close>, with \<^verbatim>\<open>/sys/block/dm-0/slaves/sda\<close> present, it does not
  return \<^verbatim>\<open>/dev/dm-0\<close> but the error "Illegal path for device sda".
\<close>

theorem FindMultipathDeviceForDevice_bare_name_counterexample:
  "ReadDir bare_io ''/sys/block/'' 0 = Inr [''dm-0''] \<and>
   HasPrefix ''dm-0'' ''dm-'' \<and>
   Lstat bare_io (''/sys/block/'' @ ''dm-0'' @ ''/slaves/'' @ ''sda'') 0 = None \<and>
   FindMultipathDeviceForDevice bare_io ''sda'' 0 \<noteq> (''/dev/'' @ ''dm-0'', None) \<and>
   FindMultipathDeviceForDevice bare_io ''sda'' 0 = ([], Some (IllegalPath ''sda''))"
  by code_simp

text \<open>
  Claim C6, amended: when \<^verbatim>\<open>findDeviceForPath\<close> resolves and parses the given path
  to the device name \<open>d\<close>, \<^verbatim>\<open>FindMultipathDeviceForDevice\<close> returns
  \<^verbatim>\<open>/dev/<name>\<close> for the first entry of the listing of \<^verbatim>\<open>/sys/block/\<close> whose name
  has the prefix \<^verbatim>\<open>dm-\<close> and for which \<open>Lstat\<close> of
  \<^verbatim>\<open>/sys/block/<name>/slaves/<d>\<close> succeeds; the error of the listing if the listing
  fails; and the empty string with no error if no entry matches. When
  \<^verbatim>\<open>findDeviceForPath\<close> fails, its error is returned.
\<close>

theorem FindMultipathDeviceForDevice_first_match:
  "(findDeviceForPath io device s = (d, None) \<longrightarrow>
      FindMultipathDeviceForDevice io device s =
        (case ReadDir io ''/sys/block/'' s of
           Inl err \<Rightarrow> ([], Some err)
         | Inr dirs \<Rightarrow>
             (case find (\<lambda>name. HasPrefix name ''dm-'' \<and>
                          Lstat io (''/sys/block/'' @ name @ ''/slaves/'' @ d) s = None) dirs of
                Some name \<Rightarrow> (''/dev/'' @ name, None)
              | None \<Rightarrow> ([], None)))) \<and>
   (findDeviceForPath io device s = (d, Some err) \<longrightarrow>
      FindMultipathDeviceForDevice io device s = ([], Some err))"
  by (simp add: FindMultipathDeviceForDevice_def FindMultipath_loop_find split: sum.splits)

theorem FindMultipathDeviceForDevice_first_match_witness:
  "findDeviceForPath (wwid_io True) ''/dev/sdc'' 0 = (''sdc'', None) \<and>
   ReadDir (wwid_io True) ''/sys/block/'' 0 = Inr [''sdc'', ''dm-0'', ''dm-1'', ''dm-2''] \<and>
   FindMultipathDeviceForDevice (wwid_io True) ''/dev/sdc'' 0 = (''/dev/dm-1'', None) \<and>
   findDeviceForPath (wwid_io True) ''/dev/sdx'' 0 = ([], Some (IOError ''/dev/sdx'')) \<and>
   FindMultipathDeviceForDevice (wwid_io True) ''/dev/sdx'' 0 = ([], Some (IOError ''/dev/sdx''))"
proof -
  have p: "findDeviceForPath (wwid_io True) ''/dev/sdc'' 0 = (''sdc'', None)"
    by code_simp
  have q: "findDeviceForPath (wwid_io True) ''/dev/sdx'' 0 = ([], Some (IOError ''/dev/sdx''))"
    by code_simp
  have r: "ReadDir (wwid_io True) ''/sys/block/'' 0 = Inr [''sdc'', ''dm-0'', ''dm-1'', ''dm-2'']"
    by code_simp
  have h: "\<not> HasPrefix ''sdc'' ''dm-''" "HasPrefix ''dm-0'' ''dm-''" "HasPrefix ''dm-1'' ''dm-''"
    by code_simp+
  have l: "Lstat (wwid_io True) ''/sys/block/dm-0/slaves/sdc'' 0 =
        Some (IOError ''/sys/block/dm-0/slaves/sdc'')"
      "Lstat (wwid_io True) ''/sys/block/dm-1/slaves/sdc'' 0 = None"
    by code_simp+
  from FindMultipathDeviceForDevice_first_match
         [where io = "wwid_io True" and device = "''/dev/sdc''" and s = 0 and d = "''sdc''"]
       FindMultipathDeviceForDevice_first_match
         [where io = "wwid_io True" and device = "''/dev/sdx''" and s = 0 and d = "[]"
            and err = "IOError ''/dev/sdx''"]
  show ?thesis
    by (simp add: p q r h l)
qed

subsection \<open>C7: substring match by path, exact match by id\<close>

text \<open>
  Claim C7: \<^verbatim>\<open>findDisk\<close> looks only at the entries of \<^verbatim>\<open>/dev/disk/by-path/\<close> whose
  name has \<^verbatim>\<open>-fc-0x<wwn>-lun-<lun>\<close> somewhere inside it, and tries each such entry in
  turn; \<^verbatim>\<open>findDiskWWIDs\<close> looks only at the entries of \<^verbatim>\<open>/dev/disk/by-id/\<close> whose
  name is exactly \<^verbatim>\<open>scsi-<wwid>\<close>.
\<close>

theorem lookup_name_matching:
  "(ReadDir io ''/dev/disk/by-path/'' s = Inr dirs \<longrightarrow>
      findDisk io wwn lun s =
        findDisk_loop io s (''-fc-0x'' @ wwn @ ''-lun-'' @ lun)
          (filter (\<lambda>name. \<exists>pre suf. name = pre @ ''-fc-0x'' @ wwn @ ''-lun-'' @ lun @ suf) dirs)) \<and>
   ((\<exists>pre suf. name = pre @ F @ suf) \<longrightarrow>
      findDisk_loop io s F (name # rest) =
        (case EvalSymlinks io (''/dev/disk/by-path/'' @ name) s of
           Inr disk \<Rightarrow>
             (case FindMultipathDeviceForDevice io disk s of
                (dm, None) \<Rightarrow> (disk, dm)
              | (dm, Some err2) \<Rightarrow> findDisk_loop io s F rest)
         | Inl err1 \<Rightarrow> findDisk_loop io s F rest)) \<and>
   (ReadDir io ''/dev/disk/by-id/'' s = Inr ids \<longrightarrow>
      findDiskWWIDs io wwid s =
        findDiskWWIDs_loop io s (''scsi-'' @ wwid) (filter (\<lambda>name. name = ''scsi-'' @ wwid) ids)) \<and>
   findDiskWWIDs_loop io s G (G # rest) =
     (case EvalSymlinks io (''/dev/disk/by-id/'' @ G) s of
        Inl err \<Rightarrow> ([], [])
      | Inr disk \<Rightarrow>
          (case FindMultipathDeviceForDevice io disk s of
             (dm, Some err1) \<Rightarrow> (disk, dm)
           | (dm, None) \<Rightarrow> findDiskWWIDs_loop io s G rest))"
proof -
  have a: "ReadDir io ''/dev/disk/by-path/'' s = Inr dirs \<longrightarrow>
      findDisk io wwn lun s =
        findDisk_loop io s (''-fc-0x'' @ wwn @ ''-lun-'' @ lun)
          (filter (\<lambda>name. \<exists>pre suf. name = pre @ ''-fc-0x'' @ wwn @ ''-lun-'' @ lun @ suf) dirs)"
    using findDisk_loop_filter[of io s "''-fc-0x'' @ wwn @ ''-lun-'' @ lun" dirs]
    by (simp add: findDisk_def Contains_iff)
  have b: "(\<exists>pre suf. name = pre @ F @ suf) \<longrightarrow>
      findDisk_loop io s F (name # rest) =
        (case EvalSymlinks io (''/dev/disk/by-path/'' @ name) s of
           Inr disk \<Rightarrow>
             (case FindMultipathDeviceForDevice io disk s of
                (dm, None) \<Rightarrow> (disk, dm)
              | (dm, Some err2) \<Rightarrow> findDisk_loop io s F rest)
         | Inl err1 \<Rightarrow> findDisk_loop io s F rest)"
    using Contains_iff[of name F] by simp
  have c: "ReadDir io ''/dev/disk/by-id/'' s = Inr ids \<longrightarrow>
      findDiskWWIDs io wwid s =
        findDiskWWIDs_loop io s (''scsi-'' @ wwid) (filter (\<lambda>name. name = ''scsi-'' @ wwid) ids)"
    using findDiskWWIDs_loop_filter[of io s "''scsi-'' @ wwid" ids]
    by (simp add: findDiskWWIDs_def)
  have d: "findDiskWWIDs_loop io s G (G # rest) =
     (case EvalSymlinks io (''/dev/disk/by-id/'' @ G) s of
        Inl err \<Rightarrow> ([], [])
      | Inr disk \<Rightarrow>
          (case FindMultipathDeviceForDevice io disk s of
             (dm, Some err1) \<Rightarrow> (disk, dm)
           | (dm, None) \<Rightarrow> findDiskWWIDs_loop io s G rest))"
    by simp
  from a b c d show ?thesis by blast
qed

theorem lookup_name_matching_witness:
  "ReadDir match_io ''/dev/disk/by-path/'' 0 =
     Inr [''pci-0000:05:00.0-fc-0x10000000c9a02834-lun-10-part1''] \<and>
   ''pci-0000:05:00.0-fc-0x10000000c9a02834-lun-10-part1'' =
     ''pci-0000:05:00.0'' @ (''-fc-0x'' @ ''10000000c9a02834'' @ ''-lun-'' @ ''1'') @ ''0-part1'' \<and>
   findDisk match_io ''10000000c9a02834'' ''1'' 0 = (''/dev/sdd'', []) \<and>
   ReadDir match_io ''/dev/disk/by-id/'' 0 =
     Inr [''scsi-3600508b400105e210000900000490000-part1''] \<and>
   findDiskWWIDs match_io ''3600508b400105e210000900000490000'' 0 = ([], []) \<and>
   findDiskWWIDs match_io ''3600508b400105e210000900000490000-part1'' 0 = (''/dev/disk/sdd'', [])"
proof -
  have r1: "ReadDir match_io ''/dev/disk/by-path/'' 0 =
      Inr [''pci-0000:05:00.0-fc-0x10000000c9a02834-lun-10-part1'']"
    by code_simp
  have r2: "ReadDir match_io ''/dev/disk/by-id/'' 0 =
      Inr [''scsi-3600508b400105e210000900000490000-part1'']"
    by code_simp
  have n: "''pci-0000:05:00.0-fc-0x10000000c9a02834-lun-10-part1'' =
      ''pci-0000:05:00.0'' @ (''-fc-0x'' @ ''10000000c9a02834'' @ ''-lun-'' @ ''1'') @ ''0-part1''"
    by simp
  have a: "findDisk match_io ''10000000c9a02834'' ''1'' 0 = (''/dev/sdd'', [])"
    by code_simp
  have b: "findDiskWWIDs_loop match_io 0 (''scsi-'' @ ''3600508b400105e210000900000490000'')
      (filter (\<lambda>name. name = ''scsi-'' @ ''3600508b400105e210000900000490000'')
         [''scsi-3600508b400105e210000900000490000-part1'']) = ([], [])"
    by simp
  have c: "findDiskWWIDs match_io ''3600508b400105e210000900000490000-part1'' 0 =
      (''/dev/disk/sdd'', [])"
    by code_simp
  from lookup_name_matching
         [of match_io 0 "[''pci-0000:05:00.0-fc-0x10000000c9a02834-lun-10-part1'']"
             "''10000000c9a02834''" "''1''"
             "''pci-0000:05:00.0-fc-0x10000000c9a02834-lun-10-part1''"
             "''-fc-0x'' @ ''10000000c9a02834'' @ ''-lun-'' @ ''1''" "[]"
             "[''scsi-3600508b400105e210000900000490000-part1'']"
             "''3600508b400105e210000900000490000''"]
  have "findDiskWWIDs match_io ''3600508b400105e210000900000490000'' 0 = ([], [])"
    using r2 b by simp
  with r1 r2 n a c show ?thesis
    by blast
qed

subsection \<open>C8: the volume name, and the WWIDs beside target WWNs, do not matter\<close>

text \<open>
  Claim C8: on the same filesystem state, \<^verbatim>\<open>searchDisk\<close> gives the same result (the
  same value, the same final state and the same trace of calls) for two connectors that
  differ only in \<^verbatim>\<open>VolumeName\<close>, and for two connectors with the same non-empty
  \<^verbatim>\<open>TargetWWNs\<close> that differ only in \<^verbatim>\<open>WWIDs\<close>.
\<close>

theorem searchDisk_noninterference:
  "searchDisk io (c\<lparr>VolumeName := v\<rparr>) w = searchDisk io c w \<and>
   (TargetWWNs c \<noteq> [] \<longrightarrow> searchDisk io (c\<lparr>WWIDs := ids\<rparr>) w = searchDisk io c w)"
  by (simp add: searchDisk_def loop_cong[of "c\<lparr>VolumeName := v\<rparr>" c] loop_cong[of "c\<lparr>WWIDs := ids\<rparr>" c])

theorem searchDisk_noninterference_witness:
  "TargetWWNs one_wwn \<noteq> [] \<and>
   searchDisk hotplug_io (one_wwn\<lparr>VolumeName := ''other''\<rparr>) w0 = searchDisk hotplug_io one_wwn w0 \<and>
   searchDisk hotplug_io (one_wwn\<lparr>WWIDs := []\<rparr>) w0 = searchDisk hotplug_io one_wwn w0 \<and>
   map_option fst (searchDisk hotplug_io one_wwn w0) = Some (''/dev/dm-0'', None)"
proof -
  have t: "TargetWWNs one_wwn \<noteq> []"
    by (simp add: one_wwn_def)
  have v: "map_option fst (searchDisk hotplug_io one_wwn w0) = Some (''/dev/dm-0'', None)"
    by code_simp
  from searchDisk_noninterference
         [where io = hotplug_io and c = one_wwn and v = "''other''" and w = w0 and ids = "[]"] t v
  show ?thesis
    by simp
qed

subsection \<open>C9: the rescan writes to every host\<close>

text \<open>
  Claim C9: \<^verbatim>\<open>scsiHostRescan\<close> writes \<^verbatim>\<open>- - -\<close> to \<^verbatim>\<open><entry>/scan\<close> for every
  entry of the listing of \<^verbatim>\<open>/sys/class/scsi_host/\<close>, in order, each write on the state
  that the one before left, whether or not that one failed; when the listing fails nothing
  is written and the filesystem is left as it was. The function returns no error in
  either case.
\<close>

theorem scsiHostRescan_fan_out:
  "write_calls (trace (scsiHostRescan io w)) =
     write_calls (trace w) @
       (case ReadDir io ''/sys/class/scsi_host/'' (fs w) of
          Inr dirs \<Rightarrow> map (\<lambda>f. (''/sys/class/scsi_host/'' @ f @ ''/scan'', ''- - -'', 438)) dirs
        | Inl err \<Rightarrow> []) \<and>
   fs (scsiHostRescan io w) =
     (case ReadDir io ''/sys/class/scsi_host/'' (fs w) of
        Inr dirs \<Rightarrow>
          foldl (\<lambda>s f. snd (WriteFile io (''/sys/class/scsi_host/'' @ f @ ''/scan'') ''- - -'' 438 s))
            (fs w) dirs
      | Inl err \<Rightarrow> fs w)"
  by (simp add: scsiHostRescan_def Let_def log_call_def scsiHostRescan_loop_writes
        scsiHostRescan_loop_fs write_calls_append split: sum.splits)

theorem scsiHostRescan_fan_out_witness:
  "fst (WriteFile raw_io ''/sys/class/scsi_host/host5/scan'' ''- - -'' 438 0) =
     Some (IOError ''/sys/class/scsi_host/host5/scan'') \<and>
   write_calls (trace (scsiHostRescan raw_io w0)) =
     [(''/sys/class/scsi_host/host5/scan'', ''- - -'', 438),
      (''/sys/class/scsi_host/host6/scan'', ''- - -'', 438)] \<and>
   fs (scsiHostRescan raw_io w0) = 1 \<and>
   ReadDir bare_io ''/sys/class/scsi_host/'' 0 = Inl (IOError ''/sys/class/scsi_host/'') \<and>
   write_calls (trace (scsiHostRescan bare_io w0)) = [] \<and>
   fs (scsiHostRescan bare_io w0) = 0"
proof -
  have r1: "ReadDir raw_io ''/sys/class/scsi_host/'' 0 = Inr [''host5'', ''host6'']"
    by code_simp
  have r2: "ReadDir bare_io ''/sys/class/scsi_host/'' 0 = Inl (IOError ''/sys/class/scsi_host/'')"
    by code_simp
  have s: "WriteFile raw_io ''/sys/class/scsi_host/host5/scan'' ''- - -'' 438 0 =
        (Some (IOError ''/sys/class/scsi_host/host5/scan''), 0)"
      "WriteFile raw_io ''/sys/class/scsi_host/host6/scan'' ''- - -'' 438 0 = (None, Suc 0)"
    by code_simp+
  have w: "fs w0 = 0" "write_calls (trace w0) = []"
    by (simp_all add: w0_def)
  from scsiHostRescan_fan_out [of raw_io w0] scsiHostRescan_fan_out [of bare_io w0]
  show ?thesis
    by (simp add: r1 r2 s w)
qed

subsection \<open>C10: a failed write is never reported by Detach\<close>

text \<open>
  Claim C10: once the path is resolved, \<^verbatim>\<open>Detach\<close> returns an error exactly when
  some device of its list does not begin with \<^verbatim>\<open>/dev/\<close>. For a device that does,
  \<^verbatim>\<open>detachFCDisk\<close> returns no error whatever the handler's \<^verbatim>\<open>WriteFile\<close> returns,
  so a failed write to \<^verbatim>\<open>/sys/block/<leaf>/device/delete\<close> never shows.
\<close>

theorem Detach_error_only_for_invalid_name:
  "(EvalSymlinks (io_or_default OSioHandler io) devicePath (fs w) = Inr dstPath \<longrightarrow>
      (fst (Detach OSioHandler devicePath io w) \<noteq> None) =
        (\<exists>d \<in> set (Detach_devices (io_or_default OSioHandler io) dstPath (fs w)).
            \<not> HasPrefix d ''/dev/'')) \<and>
   (HasPrefix d ''/dev/'' \<longrightarrow> fst (detachFCDisk h d w) = None)"
  by (auto simp: Detach_def Let_def Detach_loop_result Detach_failures_empty_iff detachFCDisk_error)

theorem Detach_error_only_for_invalid_name_witness:
  "EvalSymlinks detach_io ''/dev/mapper/mpatha'' (fs w0) = Inr ''/dev/dm-2'' \<and>
   Detach_devices detach_io ''/dev/dm-2'' (fs w0) = [''/dev/sda'', ''/dev/sdb'', ''/dev/sdc''] \<and>
   fst (WriteFile detach_io ''/sys/block/sdb/device/delete'' ''1'' 438 1) =
     Some (IOError ''/sys/block/sdb/device/delete'') \<and>
   write_calls (trace (snd (Detach detach_io ''/dev/mapper/mpatha'' (Some detach_io) w0))) =
     [(''/sys/block/sda/device/delete'', ''1'', 438),
      (''/sys/block/sdb/device/delete'', ''1'', 438),
      (''/sys/block/sdc/device/delete'', ''1'', 438)] \<and>
   fst (Detach detach_io ''/dev/mapper/mpatha'' (Some detach_io) w0) = None \<and>
   HasPrefix ''/dev/sdb'' ''/dev/'' \<and>
   fst (detachFCDisk detach_io ''/dev/sdb'' (w0\<lparr>fs := 1\<rparr>)) = None"
proof -
  have e: "EvalSymlinks detach_io ''/dev/mapper/mpatha'' (fs w0) = Inr ''/dev/dm-2''"
    by code_simp
  have d: "Detach_devices detach_io ''/dev/dm-2'' (fs w0) =
      [''/dev/sda'', ''/dev/sdb'', ''/dev/sdc'']"
    by code_simp
  have f: "fst (WriteFile detach_io ''/sys/block/sdb/device/delete'' ''1'' 438 (Suc 0)) =
      Some (IOError ''/sys/block/sdb/device/delete'')"
    by code_simp
  have t: "write_calls (trace (snd (Detach detach_io ''/dev/mapper/mpatha''
        (Some detach_io) w0))) =
     [(''/sys/block/sda/device/delete'', ''1'', 438),
      (''/sys/block/sdb/device/delete'', ''1'', 438),
      (''/sys/block/sdc/device/delete'', ''1'', 438)]"
    by code_simp
  have h: "HasPrefix ''/dev/sda'' ''/dev/''" "HasPrefix ''/dev/sdb'' ''/dev/''"
      "HasPrefix ''/dev/sdc'' ''/dev/''"
    by code_simp+
  from Detach_error_only_for_invalid_name
         [of detach_io "Some detach_io" "''/dev/mapper/mpatha''" w0 "''/dev/dm-2''"
             "''/dev/sdb''" detach_io]
       Detach_error_only_for_invalid_name
         [of detach_io "Some detach_io" "''/dev/mapper/mpatha''" "w0\<lparr>fs := 1\<rparr>" "''/dev/dm-2''"
             "''/dev/sdb''" detach_io]
  show ?thesis
    by (simp add: e d f t h)
qed

end
